theory Spec2Isabelle
  imports Main
begin

section \<open>Events and waiters (event.hpp, wait-free implementation)\<close>

text \<open>
  Objects live at addresses. A \<^verbatim>\<open>waiter*\<close> is the null pointer, the address of
  one of the two global waiters \<^verbatim>\<open>noop_waiter\<close> and \<^verbatim>\<open>delete_waiter\<close>, the address
  of a countdown latch, or the address of some other waiter object whose \<^verbatim>\<open>signal\<close>
  is user code. Distinct objects have distinct addresses, so the constructors are
  distinct values; the dynamic type of the pointee is part of the pointer value.
\<close>

type_synonym addr = nat

datatype waiter_ptr =
    Null
  | Noop_waiter
  | Delete_waiter
  | Latch addr
  | User_waiter addr

text \<open>
  What the modelled thread calls on events and on the latch, in order, with the value
  each event operation returned.
\<close>

datatype call =
    Try_wait addr waiter_ptr bool
  | Dismiss_wait addr bool
  | Latch_reset addr
  | Latch_wait addr nat

text \<open>
  How a call can fail to return a value: an \<^verbatim>\<open>assert\<close> that does not hold, a
  thread blocked for ever, the exception \<^verbatim>\<open>std::bad_alloc\<close>.
\<close>

datatype failure = Assert_failed | Blocked | Bad_alloc

text \<open>
  The part of memory the event layer touches. \<open>cells\<close> holds the atomic
  \<^verbatim>\<open>state\<close> word of the event at each address; \<open>freed\<close> the events destroyed through
  an \<^verbatim>\<open>event_ptr\<close>; \<open>latch_count\<close> the counter of each latch; \<open>fired\<close> every call
  \<^verbatim>\<open>w->signal(event_ptr(e))\<close> made so far (the \<^verbatim>\<open>event_ptr\<close> argument carries the
  ownership of \<open>e\<close>); \<open>calls\<close> the calls of the modelled thread; \<open>sched\<close> what the
  producers do while the modelled thread runs: a list of batches, each batch the
  events that producers signal at one scheduling point.
\<close>

record world =
  cells :: "addr \<Rightarrow> waiter_ptr"
  freed :: "addr set"
  latch_count :: "addr \<Rightarrow> nat"
  fired :: "(waiter_ptr \<times> addr) list"
  calls :: "call list"
  sched :: "addr list list"

text \<open>\<^verbatim>\<open>static constexpr waiter* empty = 0; static constexpr waiter* signaled = &noop_waiter;\<close>\<close>

definition event_empty :: waiter_ptr where
  "event_empty = Null"

definition event_signaled :: waiter_ptr where
  "event_signaled = Noop_waiter"

text \<open>\<^verbatim>\<open>// waited is any value non empty non signaled\<close>\<close>

definition is_waited :: "waiter_ptr \<Rightarrow> bool" where
  "is_waited c = (c \<noteq> event_empty \<and> c \<noteq> event_signaled)"

text \<open>\<^verbatim>\<open>event(bool empty = true) : state(empty ? event::empty : signaled)\<close>\<close>

definition event_init :: "addr \<Rightarrow> bool \<Rightarrow> world \<Rightarrow> world" where
  "event_init e empty_flag s =
     s\<lparr>cells := (cells s)(e := (if empty_flag then event_empty else event_signaled))\<rparr>"

subsection \<open>The atomic operations on the state word\<close>

definition get_waiter :: "addr \<Rightarrow> world \<Rightarrow> waiter_ptr" where
  "get_waiter e s = cells s e"

definition state_exchange :: "addr \<Rightarrow> waiter_ptr \<Rightarrow> world \<Rightarrow> waiter_ptr \<times> world" where
  "state_exchange e desired s = (cells s e, s\<lparr>cells := (cells s)(e := desired)\<rparr>)"

definition state_compare_exchange_strong ::
  "addr \<Rightarrow> waiter_ptr \<Rightarrow> waiter_ptr \<Rightarrow> world \<Rightarrow> bool \<times> world" where
  "state_compare_exchange_strong e expected desired s =
     (if cells s e = expected
      then (True, s\<lparr>cells := (cells s)(e := desired)\<rparr>)
      else (False, s))"

subsection \<open>Waiters\<close>

text \<open>
  \<^verbatim>\<open>noop_waiter_t::signal(event_ptr p) { p.release(); }\<close>: the pointer is given up,
  the event is not destroyed.
\<close>

definition noop_waiter_t_signal :: "addr \<Rightarrow> world \<Rightarrow> world" where
  "noop_waiter_t_signal p s = s"

text \<open>
  \<^verbatim>\<open>delete_waiter_t::signal(event_ptr p) { (void)p; }\<close>: the \<^verbatim>\<open>unique_ptr\<close> parameter
  dies at the end of the call and destroys the event.
\<close>

definition delete_waiter_t_signal :: "addr \<Rightarrow> world \<Rightarrow> world" where
  "delete_waiter_t_signal p s = s\<lparr>freed := insert p (freed s)\<rparr>"

text \<open>
  Modelled from the spec: the countdown latch, of which event.hpp holds only the
  concept documentation (\<^verbatim>\<open>struct CountdownLatch\<close> has no bodies; the latch is a
  template argument of the wait functions). \<^verbatim>\<open>signal\<close>: "call p.release(); increase
  count by 1".
\<close>

definition CountdownLatch_signal :: "addr \<Rightarrow> addr \<Rightarrow> world \<Rightarrow> world" where
  "CountdownLatch_signal l p s = s\<lparr>latch_count := (latch_count s)(l := latch_count s l + 1)\<rparr>"

text \<open>
  The virtual call \<^verbatim>\<open>w->signal(event_ptr(e))\<close>. The call is recorded in \<open>fired\<close>,
  then the body of the dynamic type runs. The body of a user waiter is not part of
  this library: only the call is recorded. The callers below never reach the call
  with a null \<open>w\<close>.
\<close>

fun waiter_signal :: "waiter_ptr \<Rightarrow> addr \<Rightarrow> world \<Rightarrow> world" where
  "waiter_signal Noop_waiter e s = noop_waiter_t_signal e (s\<lparr>fired := fired s @ [(Noop_waiter, e)]\<rparr>)"
| "waiter_signal Delete_waiter e s = delete_waiter_t_signal e (s\<lparr>fired := fired s @ [(Delete_waiter, e)]\<rparr>)"
| "waiter_signal (Latch l) e s = CountdownLatch_signal l e (s\<lparr>fired := fired s @ [(Latch l, e)]\<rparr>)"
| "waiter_signal (User_waiter a) e s = s\<lparr>fired := fired s @ [(User_waiter a, e)]\<rparr>"
| "waiter_signal Null e s = s"

subsection \<open>The event operations\<close>

text \<open>
  \<^verbatim>\<open>void signal() { auto w = state.exchange(signaled); if (w) w->signal(event_ptr(this)); }\<close>
\<close>

definition event_signal :: "addr \<Rightarrow> world \<Rightarrow> world" where
  "event_signal e s =
     (case state_exchange e event_signaled s of
        (w, s1) \<Rightarrow> if w \<noteq> Null then waiter_signal w e s1 else s1)"

text \<open>
  \<^verbatim>\<open>bool try_wait(waiter* w)\<close>: \<^verbatim>\<open>assert(w)\<close>, load, then one strong CAS from the
  loaded value to \<open>w\<close> unless the loaded value is \<^verbatim>\<open>signaled\<close>.
\<close>

definition event_try_wait :: "waiter_ptr \<Rightarrow> addr \<Rightarrow> world \<Rightarrow> failure + (bool \<times> world)" where
  "event_try_wait w e s =
     (if w = Null then Inl Assert_failed
      else
        let old_w = get_waiter e s;
            (r, s1) = (if old_w \<noteq> event_signaled
                       then state_compare_exchange_strong e old_w w s
                       else (False, s))
        in Inr (r, s1\<lparr>calls := calls s1 @ [Try_wait e w r]\<rparr>))"

text \<open>
  \<^verbatim>\<open>void wait(waiter* w) { if (!try_wait(w)) w->signal(event_ptr(this)); }\<close>
\<close>

definition event_wait :: "waiter_ptr \<Rightarrow> addr \<Rightarrow> world \<Rightarrow> failure + world" where
  "event_wait w e s =
     (case event_try_wait w e s of
        Inl f \<Rightarrow> Inl f
      | Inr (r, s1) \<Rightarrow> if \<not> r then Inr (waiter_signal w e s1) else Inr s1)"

text \<open>
  \<^verbatim>\<open>bool dismiss_wait(waiter*)\<close>:
  \<^verbatim>\<open>w == 0 || (w != signaled && state.compare_exchange_strong(w, empty))\<close>.
  The parameter is unnamed and unused.
\<close>

definition event_dismiss_wait :: "waiter_ptr \<Rightarrow> addr \<Rightarrow> world \<Rightarrow> bool \<times> world" where
  "event_dismiss_wait unused e s =
     (let w = get_waiter e s;
          (r, s1) = (if w = Null then (True, s)
                     else if w \<noteq> event_signaled
                     then state_compare_exchange_strong e w event_empty s
                     else (False, s))
      in (r, s1\<lparr>calls := calls s1 @ [Dismiss_wait e r]\<rparr>))"

subsection \<open>Producers\<close>

text \<open>
  The producers run in other threads and call \<^verbatim>\<open>signal()\<close>, one exchange on the
  state word. \<^verbatim>\<open>try_wait\<close> and \<^verbatim>\<open>dismiss_wait\<close> are a load followed by at most one
  CAS on the loaded value; a \<^verbatim>\<open>signal()\<close> that falls between the two makes the CAS
  fail and the operation return false, which is what the operation does when the
  \<^verbatim>\<open>signal()\<close> comes before the load. So each operation is run as a whole, and a
  run of the modelled thread is an interleaving of its operations with the
  \<^verbatim>\<open>signal()\<close> calls of producers. At a scheduling point the producers signal the
  events of the next batch of the schedule; an exhausted schedule means that no
  producer acts any more.
\<close>

definition run_batch :: "addr list \<Rightarrow> world \<Rightarrow> world" where
  "run_batch b s = fold event_signal b s"

definition producers_run :: "world \<Rightarrow> world" where
  "producers_run s =
     (case sched s of [] \<Rightarrow> s | b # bs \<Rightarrow> run_batch b (s\<lparr>sched := bs\<rparr>))"

subsection \<open>Operations on ranges of events\<close>

text \<open>\<^verbatim>\<open>inline event* get_event(event* e) { return e; }\<close>; \<open>None\<close> is the null pointer.\<close>

definition get_event :: "addr option \<Rightarrow> addr option" where
  "get_event x = x"

text \<open>
  \<^verbatim>\<open>wait_many\<close>: the loop from \<^verbatim>\<open>begin\<close> to \<^verbatim>\<open>end\<close> with its two counters. The
  counters are \<^verbatim>\<open>size_t\<close>; each grows by at most one per element of a range that
  lies in memory, so they cannot wrap and are natural numbers here. The producers
  may run before each \<^verbatim>\<open>try_wait\<close>.
\<close>

fun wait_many_loop ::
  "waiter_ptr \<Rightarrow> addr option list \<Rightarrow> nat \<Rightarrow> nat \<Rightarrow> world \<Rightarrow> failure + ((nat \<times> nat) \<times> world)" where
  "wait_many_loop w [] signaled waited s = Inr ((signaled, waited), s)"
| "wait_many_loop w (i # rest) signaled waited s =
     (case get_event i of
        None \<Rightarrow> wait_many_loop w rest signaled waited s
      | Some e \<Rightarrow>
          (case event_try_wait w e (producers_run s) of
             Inl f \<Rightarrow> Inl f
           | Inr (r, s1) \<Rightarrow>
               if r then wait_many_loop w rest signaled (waited + 1) s1
               else wait_many_loop w rest (signaled + 1) waited s1))"

definition event_wait_many ::
  "waiter_ptr \<Rightarrow> addr option list \<Rightarrow> world \<Rightarrow> failure + ((nat \<times> nat) \<times> world)" where
  "event_wait_many w events s = wait_many_loop w events 0 0 s"

text \<open>\<^verbatim>\<open>dismiss_wait_many\<close>: \<^verbatim>\<open>count += e->dismiss_wait(w)\<close> for every non-null entry.\<close>

fun dismiss_wait_many_loop ::
  "waiter_ptr \<Rightarrow> addr option list \<Rightarrow> nat \<Rightarrow> world \<Rightarrow> nat \<times> world" where
  "dismiss_wait_many_loop w [] count s = (count, s)"
| "dismiss_wait_many_loop w (i # rest) count s =
     (case get_event i of
        None \<Rightarrow> dismiss_wait_many_loop w rest count s
      | Some e \<Rightarrow>
          (case event_dismiss_wait w e (producers_run s) of
             (r, s1) \<Rightarrow> dismiss_wait_many_loop w rest (count + (if r then 1 else 0)) s1))"

definition event_dismiss_wait_many ::
  "waiter_ptr \<Rightarrow> addr option list \<Rightarrow> world \<Rightarrow> nat \<times> world" where
  "event_dismiss_wait_many w events s = dismiss_wait_many_loop w events 0 s"

subsection \<open>The countdown latch and \<^verbatim>\<open>wait_any\<close>\<close>

text \<open>
  Modelled from the spec: \<^verbatim>\<open>CountdownLatch::reset\<close>, documented as
  "set count to 0".
\<close>

definition CountdownLatch_reset :: "addr \<Rightarrow> world \<Rightarrow> world" where
  "CountdownLatch_reset l s =
     s\<lparr>latch_count := (latch_count s)(l := 0), calls := calls s @ [Latch_reset l]\<rparr>"

text \<open>
  Modelled from the spec: \<^verbatim>\<open>CountdownLatch::wait(target)\<close>, which "will not return
  until count is at least n" and then takes \<open>target\<close> off the count. While the count
  is too small the thread is blocked and the producers run, batch after batch; when
  the schedule is exhausted before the count is reached the thread stays blocked.
\<close>

fun latch_block :: "addr \<Rightarrow> nat \<Rightarrow> addr list list \<Rightarrow> world \<Rightarrow> failure + world" where
  "latch_block l target [] s =
     (if target \<le> latch_count s l
      then Inr (s\<lparr>latch_count := (latch_count s)(l := latch_count s l - target)\<rparr>)
      else Inl Blocked)"
| "latch_block l target (b # bs) s =
     (if target \<le> latch_count s l
      then Inr (s\<lparr>latch_count := (latch_count s)(l := latch_count s l - target)\<rparr>)
      else latch_block l target bs (run_batch b (s\<lparr>sched := bs\<rparr>)))"

text \<open>
  Modelled from the spec: the call \<^verbatim>\<open>latch.wait(target)\<close> of the modelled thread,
  recorded and then blocking as above on what is left of the schedule.
\<close>

definition CountdownLatch_wait :: "addr \<Rightarrow> nat \<Rightarrow> world \<Rightarrow> failure + world" where
  "CountdownLatch_wait l target s =
     latch_block l target (sched s) (s\<lparr>calls := calls s @ [Latch_wait l target]\<rparr>)"

text \<open>
  \<^verbatim>\<open>wait_any_adl(latch, events)\<close>, statement by statement, every \<^verbatim>\<open>assert\<close>
  checked. \<^verbatim>\<open>pending\<close> is a \<^verbatim>\<open>ptrdiff_t\<close>, an integer here, computed after
  \<^verbatim>\<open>assert(dismissed <= waited)\<close>; \<^verbatim>\<open>latch.wait()\<close> has the default target 1, and
  the target type is that of the latch, a natural number here.
\<close>

definition wait_any_adl :: "addr \<Rightarrow> addr option list \<Rightarrow> world \<Rightarrow> failure + world" where
  "wait_any_adl latch events s =
     (case event_wait_many (Latch latch) events (CountdownLatch_reset latch s) of
        Inl f \<Rightarrow> Inl f
      | Inr ((signaled, waited), s1) \<Rightarrow>
          if \<not> signaled + waited \<le> length events then Inl Assert_failed
          else
            (case (if signaled = 0 then CountdownLatch_wait latch 1 s1 else Inr s1) of
               Inl f \<Rightarrow> Inl f
             | Inr s2 \<Rightarrow>
                 (case event_dismiss_wait_many (Latch latch) events s2 of
                    (dismissed, s3) \<Rightarrow>
                      if \<not> dismissed \<le> waited then Inl Assert_failed
                      else
                        let pending = int waited - int dismissed in
                        if \<not> 0 \<le> pending then Inl Assert_failed
                        else if \<not> (signaled \<noteq> 0 \<or> 1 \<le> pending) then Inl Assert_failed
                        else if signaled = 0 \<and> \<not> 1 \<le> pending then Inl Assert_failed
                        else
                          let pending1 = (if signaled = 0 then pending - 1 else pending) in
                          if pending1 \<noteq> 0 then CountdownLatch_wait latch (nat pending1) s3
                          else Inr s3)))"

text \<open>The non-null entries of a range, in order.\<close>

fun non_null :: "addr option list \<Rightarrow> addr list" where
  "non_null [] = []"
| "non_null (None # rest) = non_null rest"
| "non_null (Some e # rest) = e # non_null rest"

text \<open>A world with no event waited or signaled, no call made and no producer.\<close>

definition quiet_world :: world where
  "quiet_world =
     \<lparr>cells = (\<lambda>e. Null), freed = {}, latch_count = (\<lambda>l. 0), fired = [], calls = [],
      sched = []\<rparr>"

section \<open>Shared futures (shared_future.hpp)\<close>

text \<open>
  The memory a multiplexer touches: its \<^verbatim>\<open>shared_state_union<T>\<close> base
  (\<open>shared_state\<close>, empty until a result is moved in), its deque of promises
  (\<open>listeners\<close>, each promise named by the shared state it owns), and the shared
  states of the promises (\<open>promise_value\<close>, \<open>None\<close> while no value is set).
\<close>

record 'a multiplexer =
  shared_state :: "'a option"
  listeners :: "nat list"
  promise_value :: "nat \<Rightarrow> bool option"
  next_promise :: nat

text \<open>
  Modelled from the spec: \<^verbatim>\<open>promise<bool>\<close> and \<^verbatim>\<open>future<bool>\<close> of future.hpp,
  which is not among the sources. A new promise owns a new shared state without a
  value; its future reads that shared state; \<^verbatim>\<open>set_value\<close> fulfils it; a future
  is ready when its shared state has a value.
\<close>

definition promise_new :: "'a multiplexer \<Rightarrow> nat \<times> 'a multiplexer" where
  "promise_new m =
     (next_promise m,
      m\<lparr>promise_value := (promise_value m)(next_promise m := None),
        next_promise := next_promise m + 1\<rparr>)"

definition promise_get_future :: "nat \<Rightarrow> nat" where
  "promise_get_future p = p"

definition promise_set_value :: "bool \<Rightarrow> nat \<Rightarrow> 'a multiplexer \<Rightarrow> 'a multiplexer" where
  "promise_set_value v p m = m\<lparr>promise_value := (promise_value m)(p := Some v)\<rparr>"

definition future_ready :: "nat \<Rightarrow> 'a multiplexer \<Rightarrow> bool" where
  "future_ready f m = (promise_value m f \<noteq> None)"

text \<open>
  \<^verbatim>\<open>return lock(), listeners.emplace_back(), listeners.back().get_future();\<close>
\<close>

definition add_listener :: "'a multiplexer \<Rightarrow> nat \<times> 'a multiplexer" where
  "add_listener m =
     (case promise_new m of
        (p, m1) \<Rightarrow> (promise_get_future p, m1\<lparr>listeners := listeners m1 @ [p]\<rparr>))"

text \<open>
  \<^verbatim>\<open>signal(event_ptr other)\<close>: \<^verbatim>\<open>assert(original)\<close>, the result of the source is
  moved into the base, the deque is exchanged for an empty one, and
  \<^verbatim>\<open>set_value(true)\<close> is called on every promise taken out. \<open>None\<close> is a null
  \<^verbatim>\<open>event_ptr\<close>.
\<close>

definition multiplexer_signal :: "'a option \<Rightarrow> 'a multiplexer \<Rightarrow> failure + 'a multiplexer" where
  "multiplexer_signal other m =
     (case other of
        None \<Rightarrow> Inl Assert_failed
      | Some original \<Rightarrow>
          let m1 = m\<lparr>shared_state := Some original\<rparr>;
              tmp_listeners = listeners m1;
              m2 = m1\<lparr>listeners := []\<rparr>
          in Inr (fold (promise_set_value True) tmp_listeners m2))"

text \<open>
  A \<^verbatim>\<open>shared_future\<close>: whether its \<^verbatim>\<open>state\<close> pointer is set, and its
  \<^verbatim>\<open>listener\<close> future (\<open>None\<close> is the invalid \<^verbatim>\<open>future<bool>()\<close>).
\<close>

record shared_future =
  state :: bool
  listener :: "nat option"

text \<open>
  The copy constructor:
  \<^verbatim>\<open>listener(state ? state->add_listener() : future<bool>())\<close>, then
  \<^verbatim>\<open>assert(listener.valid())\<close>.
\<close>

definition shared_future_copy ::
  "shared_future \<Rightarrow> 'a multiplexer \<Rightarrow> failure + (shared_future \<times> 'a multiplexer)" where
  "shared_future_copy rhs m =
     (case (if state rhs
            then (case add_listener m of (f, m1) \<Rightarrow> (Some f, m1))
            else (None, m)) of
        (l, m1) \<Rightarrow>
          if l = None then Inl Assert_failed
          else Inr (\<lparr>state = state rhs, listener = l\<rparr>, m1))"

text \<open>\<^verbatim>\<open>bool ready() const { return listener.ready(); }\<close>\<close>

definition shared_future_ready :: "shared_future \<Rightarrow> 'a multiplexer \<Rightarrow> bool" where
  "shared_future_ready x m = (case listener x of None \<Rightarrow> False | Some f \<Rightarrow> future_ready f m)"

section \<open>Continuations and stacks (switch.hpp)\<close>

text \<open>
  Modelled from the spec: \<^verbatim>\<open>switch_pair\<close> of switch_base.hpp, which is not among
  the sources: the pair of a stack pointer and a transfer parameter. The
  initialiser \<^verbatim>\<open>{{0},0}\<close> shows \<^verbatim>\<open>sp\<close> to be a struct around one pointer and
  \<^verbatim>\<open>parm\<close> a pointer; 0 is the null pointer, and \<^verbatim>\<open>!pair.sp\<close> holds when that
  pointer is null.
\<close>

record switch_pair =
  sp :: addr
  parm :: addr

record continuation =
  pair :: switch_pair

text \<open>\<^verbatim>\<open>bool has_data() const { return pair.parm; }\<close>\<close>

definition has_data :: "continuation \<Rightarrow> bool" where
  "has_data c = (parm (pair c) \<noteq> 0)"

text \<open>\<^verbatim>\<open>bool terminated() const { return !pair.sp; }\<close>\<close>

definition terminated :: "continuation \<Rightarrow> bool" where
  "terminated c = (\<not> sp (pair c) \<noteq> 0)"

text \<open>\<^verbatim>\<open>switch_pair result = pair; pair = {{0},0}; return result;\<close>\<close>

definition pilfer :: "continuation \<Rightarrow> switch_pair \<times> continuation" where
  "pilfer c = (pair c, c\<lparr>pair := \<lparr>sp = 0, parm = 0\<rparr>\<rparr>)"

text \<open>\<^verbatim>\<open>continuation(continuation&& rhs) : pair(rhs.pilfer()) {}\<close>: the new object and
  what is left of \<open>rhs\<close>.\<close>

definition continuation_move :: "continuation \<Rightarrow> continuation \<times> continuation" where
  "continuation_move rhs = (case pilfer rhs of (p, rhs1) \<Rightarrow> (\<lparr>pair = p\<rparr>, rhs1))"

text \<open>\<^verbatim>\<open>~continuation() { assert(terminated()); }\<close>\<close>

definition continuation_destroy :: "continuation \<Rightarrow> failure + unit" where
  "continuation_destroy c = (if terminated c then Inr () else Inl Assert_failed)"

subsection \<open>The stack allocator and \<^verbatim>\<open>create_context\<close>\<close>

text \<open>
  The calls of \<^verbatim>\<open>posix_memalign\<close> made so far, each with its alignment and size.
\<close>

record alloc_state =
  memalign_calls :: "(nat \<times> nat) list"

text \<open>The values of \<^verbatim>\<open>EINVAL\<close> and \<^verbatim>\<open>ENOMEM\<close> in the system's errno.h.\<close>

definition EINVAL :: int where
  "EINVAL = 22"

definition ENOMEM :: int where
  "ENOMEM = 12"

text \<open>\<^verbatim>\<open>static const size_t alignment = 16;\<close>\<close>

definition alignment :: nat where
  "alignment = 16"

text \<open>
  \<^verbatim>\<open>default_stack_allocator::allocate(size)\<close>. The C library is a parameter:
  \<open>posix_memalign a n\<close> is the value the call returns and the pointer found in
  \<^verbatim>\<open>result\<close> after it.
\<close>

definition default_stack_allocator_allocate ::
  "(nat \<Rightarrow> nat \<Rightarrow> int \<times> addr) \<Rightarrow> nat \<Rightarrow> alloc_state \<Rightarrow> failure + (addr \<times> alloc_state)" where
  "default_stack_allocator_allocate posix_memalign size_arg st =
     (case posix_memalign alignment size_arg of
        (ret, result) \<Rightarrow>
          if \<not> ret \<noteq> EINVAL then Inl Assert_failed
          else if ret = ENOMEM then Inl Bad_alloc
          else Inr (result, st\<lparr>memalign_calls := memalign_calls st @ [(alignment, size_arg)]\<rparr>))"

text \<open>
  \<^verbatim>\<open>create_context(f, stack_size, alloc)\<close>. \<^verbatim>\<open>stack_bottom\<close> (macros.hpp) and the
  switch into the new stack (\<^verbatim>\<open>execute_into\<close>, assembly, reached through
  \<^verbatim>\<open>run_startup_trampoline_into\<close>) are not among the sources and are parameters;
  the deleter is the allocator's \<^verbatim>\<open>deallocate\<close> on \<^verbatim>\<open>stackp\<close>, so the trampoline
  is given \<^verbatim>\<open>stackp\<close>. An exception of \<^verbatim>\<open>allocate\<close> is not caught.
\<close>

definition create_context ::
  "(nat \<Rightarrow> alloc_state \<Rightarrow> failure + (addr \<times> alloc_state)) \<Rightarrow> (addr \<Rightarrow> nat \<Rightarrow> addr) \<Rightarrow>
   (addr \<Rightarrow> 'f \<Rightarrow> addr \<Rightarrow> switch_pair) \<Rightarrow> 'f \<Rightarrow> nat \<Rightarrow> alloc_state \<Rightarrow>
   failure + (continuation \<times> alloc_state)" where
  "create_context alloc_allocate stack_bottom run_startup_trampoline_into f stack_size st =
     (case alloc_allocate stack_size st of
        Inl x \<Rightarrow> Inl x
      | Inr (stackp, st1) \<Rightarrow>
          let cs = stack_bottom stackp stack_size
          in Inr (\<lparr>pair = run_startup_trampoline_into cs f stackp\<rparr>, st1))"

text \<open>
  The call with the default arguments \<^verbatim>\<open>stack_size = 1024*1024\<close> and
  \<^verbatim>\<open>StackAlloc = default_stack_allocator\<close>.
\<close>

definition default_stack_size :: nat where
  "default_stack_size = 1024 * 1024"

definition create_context_default ::
  "(nat \<Rightarrow> nat \<Rightarrow> int \<times> addr) \<Rightarrow> (addr \<Rightarrow> nat \<Rightarrow> addr) \<Rightarrow>
   (addr \<Rightarrow> 'f \<Rightarrow> addr \<Rightarrow> switch_pair) \<Rightarrow> 'f \<Rightarrow> alloc_state \<Rightarrow>
   failure + (continuation \<times> alloc_state)" where
  "create_context_default posix_memalign stack_bottom run_startup_trampoline_into f st =
     create_context (default_stack_allocator_allocate posix_memalign) stack_bottom
       run_startup_trampoline_into f default_stack_size st"

text \<open>
  Two events and a latch at address 9: nothing happens while the two events are
  registered, then a producer signals event 2 and event 1.
\<close>

definition race_world :: world where
  "race_world = quiet_world\<lparr>sched := [[], [], [2, 1]]\<rparr>"

text \<open>Two behaviours of the C library: out of memory, and a block at address 4096.\<close>

definition memalign_fails :: "nat \<Rightarrow> nat \<Rightarrow> int \<times> addr" where
  "memalign_fails a n = (ENOMEM, 0)"

definition memalign_succeeds :: "nat \<Rightarrow> nat \<Rightarrow> int \<times> addr" where
  "memalign_succeeds a n = (0, 4096)"

section \<open>The event state machine\<close>

lemma event_signal_cases:
  "event_signal e s =
     (if cells s e = Null then s\<lparr>cells := (cells s)(e := Noop_waiter)\<rparr>
      else waiter_signal (cells s e) e (s\<lparr>cells := (cells s)(e := Noop_waiter)\<rparr>))"
  by (simp add: event_signal_def state_exchange_def event_signaled_def)

lemma waiter_signal_cells [simp]: "cells (waiter_signal w e s) = cells s"
  by (cases w)
    (simp_all add: noop_waiter_t_signal_def delete_waiter_t_signal_def CountdownLatch_signal_def)

lemma waiter_signal_calls [simp]: "calls (waiter_signal w e s) = calls s"
  by (cases w)
    (simp_all add: noop_waiter_t_signal_def delete_waiter_t_signal_def CountdownLatch_signal_def)

lemma waiter_signal_sched [simp]: "sched (waiter_signal w e s) = sched s"
  by (cases w)
    (simp_all add: noop_waiter_t_signal_def delete_waiter_t_signal_def CountdownLatch_signal_def)

lemma waiter_signal_fired:
  "w \<noteq> Null \<Longrightarrow> fired (waiter_signal w e s) = fired s @ [(w, e)]"
  by (cases w)
    (simp_all add: noop_waiter_t_signal_def delete_waiter_t_signal_def CountdownLatch_signal_def)

text \<open>
  C1. \<^verbatim>\<open>signal()\<close> leaves the state word at \<^verbatim>\<open>signaled\<close>, whatever it was. If the
  event was waited by \<open>w\<close>, exactly one call \<^verbatim>\<open>w->signal(event_ptr(this))\<close> is
  made, and its argument owns the event. If the event was empty, no callback is
  made and nothing is destroyed: the event stays with whoever held it.
\<close>

theorem signal_transitions:
  "cells (event_signal e s) e = event_signaled \<and>
   (is_waited (cells s e) \<longrightarrow> fired (event_signal e s) = fired s @ [(cells s e, e)]) \<and>
   (cells s e = event_empty \<longrightarrow>
      fired (event_signal e s) = fired s \<and> freed (event_signal e s) = freed s \<and>
      event_signal e s = s\<lparr>cells := (cells s)(e := event_signaled)\<rparr>)"
  by (simp add: event_signal_cases is_waited_def event_empty_def event_signaled_def
      waiter_signal_fired)

theorem signal_transitions_witness:
  "is_waited (cells (quiet_world\<lparr>cells := (cells quiet_world)(1 := User_waiter 7)\<rparr>) 1) \<and>
   fired (event_signal 1 (quiet_world\<lparr>cells := (cells quiet_world)(1 := User_waiter 7)\<rparr>))
     = [(User_waiter 7, 1)] \<and>
   cells (event_signal 1 (quiet_world\<lparr>cells := (cells quiet_world)(1 := User_waiter 7)\<rparr>)) 1
     = event_signaled \<and>
   cells quiet_world 1 = event_empty \<and>
   fired (event_signal 1 quiet_world) = [] \<and>
   freed (event_signal 1 quiet_world) = {} \<and>
   cells (event_signal 1 quiet_world) 1 = event_signaled"
  using signal_transitions [of 1 "quiet_world\<lparr>cells := (cells quiet_world)(1 := User_waiter 7)\<rparr>"]
    signal_transitions [of 1 quiet_world]
  by (simp add: quiet_world_def is_waited_def event_empty_def event_signaled_def)

lemma try_wait_cases:
  "w \<noteq> Null \<Longrightarrow>
   event_try_wait w e s =
     (if cells s e = Noop_waiter then Inr (False, s\<lparr>calls := calls s @ [Try_wait e w False]\<rparr>)
      else Inr (True, s\<lparr>cells := (cells s)(e := w), calls := calls s @ [Try_wait e w True]\<rparr>))"
  by (simp add: event_try_wait_def get_waiter_def state_compare_exchange_strong_def
      event_signaled_def Let_def)

lemma dismiss_wait_cases:
  "event_dismiss_wait w e s =
     (if cells s e = Null then (True, s\<lparr>calls := calls s @ [Dismiss_wait e True]\<rparr>)
      else if cells s e = Noop_waiter then (False, s\<lparr>calls := calls s @ [Dismiss_wait e False]\<rparr>)
      else (True, s\<lparr>cells := (cells s)(e := Null), calls := calls s @ [Dismiss_wait e True]\<rparr>))"
  by (simp add: event_dismiss_wait_def get_waiter_def state_compare_exchange_strong_def
      event_signaled_def event_empty_def Let_def)

text \<open>
  What \<^verbatim>\<open>try_wait(w)\<close> does for every non-null \<open>w\<close>: on an empty event it returns
  true and stores \<open>w\<close>, on a signaled event it returns false and leaves the state
  word as it was. The stored word is a waited state for every \<open>w\<close> but the address
  of \<^verbatim>\<open>noop_waiter\<close>, which is the \<^verbatim>\<open>signaled\<close> sentinel.
\<close>

lemma try_wait_transitions:
  assumes "w \<noteq> Null"
  shows "(cells s e = event_empty \<longrightarrow>
            (\<exists>s'. event_try_wait w e s = Inr (True, s') \<and> cells s' = (cells s)(e := w) \<and>
                  (w \<noteq> Noop_waiter \<longrightarrow> is_waited (cells s' e)))) \<and>
         (cells s e = event_signaled \<longrightarrow>
            (\<exists>s'. event_try_wait w e s = Inr (False, s') \<and> cells s' = cells s))"
  using assms
  by (simp add: try_wait_cases event_empty_def event_signaled_def is_waited_def)

text \<open>
  C2. \<^verbatim>\<open>try_wait(&noop_waiter)\<close> on an empty event: the waiter is not null and the
  event is not waited; the call returns true, but the word it stores is the
  \<^verbatim>\<open>signaled\<close> sentinel. The event is signaled, not waited by \<open>w\<close>, and a
  \<^verbatim>\<open>dismiss_wait\<close> that follows returns false.
\<close>

theorem try_wait_noop_waiter_not_waited:
  "Noop_waiter \<noteq> Null \<and> cells quiet_world 1 = event_empty \<and>
   \<not> is_waited (cells quiet_world 1) \<and>
   \<not> isl (event_try_wait Noop_waiter 1 quiet_world) \<and>
   fst (projr (event_try_wait Noop_waiter 1 quiet_world)) \<and>
   cells (snd (projr (event_try_wait Noop_waiter 1 quiet_world))) 1 = event_signaled \<and>
   \<not> is_waited (cells (snd (projr (event_try_wait Noop_waiter 1 quiet_world))) 1) \<and>
   \<not> fst (event_dismiss_wait Noop_waiter 1
            (snd (projr (event_try_wait Noop_waiter 1 quiet_world))))"
  by (simp add: try_wait_cases dismiss_wait_cases quiet_world_def event_empty_def
      event_signaled_def is_waited_def)

text \<open>
  C3. With no other thread between its load and its CAS, \<^verbatim>\<open>dismiss_wait\<close> returns
  true and empties a waited event, returns true and leaves an empty event empty,
  and returns false and leaves a signaled event signaled.
\<close>

theorem dismiss_wait_transitions:
  "(is_waited (cells s e) \<longrightarrow>
      fst (event_dismiss_wait w e s) \<and>
      cells (snd (event_dismiss_wait w e s)) = (cells s)(e := event_empty)) \<and>
   (cells s e = event_empty \<longrightarrow>
      fst (event_dismiss_wait w e s) \<and> cells (snd (event_dismiss_wait w e s)) = cells s) \<and>
   (cells s e = event_signaled \<longrightarrow>
      \<not> fst (event_dismiss_wait w e s) \<and> cells (snd (event_dismiss_wait w e s)) = cells s)"
  by (simp add: dismiss_wait_cases event_empty_def event_signaled_def is_waited_def)

theorem dismiss_wait_transitions_witness:
  "is_waited (cells (quiet_world\<lparr>cells := (cells quiet_world)(1 := User_waiter 7)\<rparr>) 1) \<and>
   fst (event_dismiss_wait (User_waiter 7) 1
          (quiet_world\<lparr>cells := (cells quiet_world)(1 := User_waiter 7)\<rparr>)) \<and>
   cells (snd (event_dismiss_wait (User_waiter 7) 1
          (quiet_world\<lparr>cells := (cells quiet_world)(1 := User_waiter 7)\<rparr>))) 1 = event_empty \<and>
   cells quiet_world 1 = event_empty \<and>
   fst (event_dismiss_wait (User_waiter 7) 1 quiet_world) \<and>
   cells (snd (event_dismiss_wait (User_waiter 7) 1 quiet_world)) 1 = event_empty \<and>
   cells (event_init 2 False quiet_world) 2 = event_signaled \<and>
   \<not> fst (event_dismiss_wait (User_waiter 7) 2 (event_init 2 False quiet_world)) \<and>
   cells (snd (event_dismiss_wait (User_waiter 7) 2 (event_init 2 False quiet_world))) 2
     = event_signaled"
  using dismiss_wait_transitions
      [of "quiet_world\<lparr>cells := (cells quiet_world)(1 := User_waiter 7)\<rparr>" 1 "User_waiter 7"]
    dismiss_wait_transitions [of quiet_world 1 "User_waiter 7"]
    dismiss_wait_transitions [of "event_init 2 False quiet_world" 2 "User_waiter 7"]
  by (simp add: quiet_world_def event_init_def event_empty_def event_signaled_def is_waited_def)

text \<open>
  What \<^verbatim>\<open>wait(w)\<close> does for every non-null \<open>w\<close> on an event that is not waited:
  one call of \<^verbatim>\<open>try_wait(w)\<close>; when that returns false (the event was signaled)
  the call \<^verbatim>\<open>w->signal(event_ptr(this))\<close> is made before \<^verbatim>\<open>wait\<close> returns and the
  state word is unchanged; otherwise (the event was empty) \<open>w\<close> is stored and no
  callback is made. The stored word is a waited state for every \<open>w\<close> but the
  address of \<^verbatim>\<open>noop_waiter\<close>.
\<close>

lemma wait_registers_or_fires:
  assumes "w \<noteq> Null" and "\<not> is_waited (cells s e)"
  shows "(cells s e = event_signaled \<longrightarrow>
            (\<exists>s'. event_wait w e s = Inr s' \<and> calls s' = calls s @ [Try_wait e w False] \<and>
                  fired s' = fired s @ [(w, e)] \<and> cells s' = cells s)) \<and>
         (cells s e = event_empty \<longrightarrow>
            (\<exists>s'. event_wait w e s = Inr s' \<and> calls s' = calls s @ [Try_wait e w True] \<and>
                  fired s' = fired s \<and> cells s' = (cells s)(e := w) \<and>
                  (w \<noteq> Noop_waiter \<longrightarrow> is_waited (cells s' e))))"
  using assms
  by (simp add: event_wait_def try_wait_cases event_empty_def event_signaled_def
      waiter_signal_fired is_waited_def)

text \<open>
  C7. \<^verbatim>\<open>wait(&noop_waiter)\<close> on an empty event: the waiter is not null and the event
  is not waited; \<^verbatim>\<open>try_wait\<close> returns true and no callback is made, but
  \<^verbatim>\<open>wait\<close> returns with the event signaled, not waited: the waiter is not
  registered. A \<^verbatim>\<open>dismiss_wait\<close> that follows returns false, and a \<^verbatim>\<open>wait(w2)\<close>
  that follows calls \<^verbatim>\<open>w2->signal\<close> at once, though no producer has signaled.
\<close>

theorem wait_noop_waiter_not_registered:
  "Noop_waiter \<noteq> Null \<and> cells quiet_world 1 = event_empty \<and>
   \<not> is_waited (cells quiet_world 1) \<and>
   \<not> isl (event_wait Noop_waiter 1 quiet_world) \<and>
   calls (projr (event_wait Noop_waiter 1 quiet_world)) = [Try_wait 1 Noop_waiter True] \<and>
   fired (projr (event_wait Noop_waiter 1 quiet_world)) = [] \<and>
   cells (projr (event_wait Noop_waiter 1 quiet_world)) 1 = event_signaled \<and>
   \<not> is_waited (cells (projr (event_wait Noop_waiter 1 quiet_world)) 1) \<and>
   \<not> fst (event_dismiss_wait Noop_waiter 1 (projr (event_wait Noop_waiter 1 quiet_world))) \<and>
   fired (projr (event_wait (User_waiter 7) 1 (projr (event_wait Noop_waiter 1 quiet_world))))
     = [(User_waiter 7, 1)]"
  by (simp add: event_wait_def try_wait_cases dismiss_wait_cases quiet_world_def
      event_empty_def event_signaled_def is_waited_def)

text \<open>
  C10. \<^verbatim>\<open>signal()\<close> on an event that is already signaled: the exchange returns the
  sentinel, which is the address of \<^verbatim>\<open>noop_waiter\<close>; it is not null, so
  \<^verbatim>\<open>noop_waiter_t::signal\<close> is called, which gives the pointer up without destroying
  the event. No event is freed and the state word is still \<^verbatim>\<open>signaled\<close>.
\<close>

theorem double_signal_benign:
  assumes "cells s e = event_signaled"
  shows "fst (state_exchange e event_signaled s) = Noop_waiter \<and>
         event_signal e s = noop_waiter_t_signal e (s\<lparr>fired := fired s @ [(Noop_waiter, e)]\<rparr>) \<and>
         freed (event_signal e s) = freed s \<and>
         cells (event_signal e s) e = event_signaled"
  using assms
  by (simp add: event_signal_cases state_exchange_def event_signaled_def
      noop_waiter_t_signal_def fun_upd_idem)

theorem double_signal_benign_witness:
  "cells (event_init 2 False quiet_world) 2 = event_signaled \<and>
   fst (state_exchange 2 event_signaled (event_init 2 False quiet_world)) = Noop_waiter \<and>
   fired (event_signal 2 (event_init 2 False quiet_world)) = [(Noop_waiter, 2)] \<and>
   freed (event_signal 2 (event_init 2 False quiet_world)) = {} \<and>
   cells (event_signal 2 (event_init 2 False quiet_world)) 2 = event_signaled"
  using double_signal_benign [of "event_init 2 False quiet_world" 2]
  by (simp add: quiet_world_def event_init_def event_signaled_def noop_waiter_t_signal_def)

section \<open>Waiting on ranges of events\<close>

lemma event_signal_calls [simp]: "calls (event_signal e s) = calls s"
  by (simp add: event_signal_cases)

lemma run_batch_calls [simp]: "calls (run_batch b s) = calls s"
  unfolding run_batch_def by (induction b arbitrary: s) simp_all

lemma producers_run_calls [simp]: "calls (producers_run s) = calls s"
  by (simp add: producers_run_def split: list.splits)

lemma wait_many_loop_log:
  assumes "w \<noteq> Null"
  shows "\<exists>rs s'. wait_many_loop w events signaled waited s =
             Inr ((signaled + count_list rs False, waited + count_list rs True), s') \<and>
           length rs = length (non_null events) \<and>
           calls s' = calls s @ map2 (\<lambda>e r. Try_wait e w r) (non_null events) rs"
proof (induction events arbitrary: signaled waited s)
  case Nil
  show ?case by simp
next
  case (Cons i rest)
  show ?case
  proof (cases i)
    case None
    with Cons show ?thesis by (simp add: get_event_def)
  next
    case (Some e)
    let ?p = "producers_run s"
    show ?thesis
    proof (cases "cells ?p e = Noop_waiter")
      case True
      let ?s1 = "?p\<lparr>calls := calls ?p @ [Try_wait e w False]\<rparr>"
      from Cons [of "signaled + 1" waited ?s1]
      obtain rs s' where
        run: "wait_many_loop w rest (signaled + 1) waited ?s1 =
                Inr ((signaled + 1 + count_list rs False, waited + count_list rs True), s')"
        and len: "length rs = length (non_null rest)"
        and log: "calls s' = calls ?s1 @ map2 (\<lambda>e r. Try_wait e w r) (non_null rest) rs"
        by blast
      have "wait_many_loop w (i # rest) signaled waited s =
              Inr ((signaled + count_list (False # rs) False,
                    waited + count_list (False # rs) True), s')"
        using assms Some True run by (simp add: get_event_def try_wait_cases)
      moreover have "length (False # rs) = length (non_null (i # rest))"
        using Some len by simp
      moreover have "calls s' =
          calls s @ map2 (\<lambda>e r. Try_wait e w r) (non_null (i # rest)) (False # rs)"
        using Some log by simp
      ultimately show ?thesis by blast
    next
      case False
      let ?s1 = "?p\<lparr>cells := (cells ?p)(e := w), calls := calls ?p @ [Try_wait e w True]\<rparr>"
      from Cons [of signaled "waited + 1" ?s1]
      obtain rs s' where
        run: "wait_many_loop w rest signaled (waited + 1) ?s1 =
                Inr ((signaled + count_list rs False, waited + 1 + count_list rs True), s')"
        and len: "length rs = length (non_null rest)"
        and log: "calls s' = calls ?s1 @ map2 (\<lambda>e r. Try_wait e w r) (non_null rest) rs"
        by blast
      have "wait_many_loop w (i # rest) signaled waited s =
              Inr ((signaled + count_list (True # rs) False,
                    waited + count_list (True # rs) True), s')"
        using assms Some False run by (simp add: get_event_def try_wait_cases)
      moreover have "length (True # rs) = length (non_null (i # rest))"
        using Some len by simp
      moreover have "calls s' =
          calls s @ map2 (\<lambda>e r. Try_wait e w r) (non_null (i # rest)) (True # rs)"
        using Some log by simp
      ultimately show ?thesis by blast
    qed
  qed
qed

lemma count_list_bool: "count_list rs False + count_list rs True = length rs"
  by (induction rs) auto

lemma length_non_null: "length (non_null events) = length (filter (\<lambda>i. get_event i \<noteq> None) events)"
  by (induction events rule: non_null.induct) (simp_all add: get_event_def)

text \<open>
  C6. For every range and every non-null waiter \<open>w\<close>, \<^verbatim>\<open>wait_many\<close> returns, its
  calls are one \<^verbatim>\<open>try_wait(w)\<close> per non-null entry, in the order of the range, and
  the pair it returns counts the calls that returned false and those that returned
  true: the sum of the two is the number of non-null entries. This holds whatever
  the producers do in between.
\<close>

theorem wait_many_counts:
  assumes "w \<noteq> Null"
  shows "\<exists>signaled waited rs s'.
           event_wait_many w events s = Inr ((signaled, waited), s') \<and>
           signaled + waited = length (filter (\<lambda>i. get_event i \<noteq> None) events) \<and>
           length rs = length (non_null events) \<and>
           calls s' = calls s @ map2 (\<lambda>e r. Try_wait e w r) (non_null events) rs \<and>
           signaled = count_list rs False \<and> waited = count_list rs True"
proof -
  from wait_many_loop_log [OF assms, of events 0 0 s]
  obtain rs s' where
    run: "wait_many_loop w events 0 0 s = Inr ((0 + count_list rs False, 0 + count_list rs True), s')"
    and len: "length rs = length (non_null events)"
    and log: "calls s' = calls s @ map2 (\<lambda>e r. Try_wait e w r) (non_null events) rs"
    by blast
  have "count_list rs False + count_list rs True =
          length (filter (\<lambda>i. get_event i \<noteq> None) events)"
    using len by (simp add: count_list_bool length_non_null)
  moreover have "event_wait_many w events s =
      Inr ((count_list rs False, count_list rs True), s')"
    using run by (simp add: event_wait_many_def)
  ultimately show ?thesis
    using len log by blast
qed

theorem wait_many_counts_witness:
  "User_waiter 7 \<noteq> Null \<and>
   (\<exists>signaled waited rs s'.
      event_wait_many (User_waiter 7) [Some 1, None, Some 2] (event_init 2 False quiet_world)
        = Inr ((signaled, waited), s') \<and>
      signaled + waited = length (filter (\<lambda>i. get_event i \<noteq> None) [Some 1, None, Some 2]) \<and>
      length rs = length (non_null [Some 1, None, Some 2]) \<and>
      calls s' = calls (event_init 2 False quiet_world)
        @ map2 (\<lambda>e r. Try_wait e (User_waiter 7) r) (non_null [Some 1, None, Some 2]) rs \<and>
      signaled = count_list rs False \<and> waited = count_list rs True)"
proof -
  have h: "User_waiter 7 \<noteq> Null" by simp
  show ?thesis
    by (rule conjI [OF h wait_many_counts [OF h]])
qed

lemma wait_many_example:
  "map_sum id (\<lambda>(c, s). (c, calls s))
     (event_wait_many (User_waiter 7) [Some 1, None, Some 2] (event_init 2 False quiet_world)) =
   Inr ((1, 1), [Try_wait 1 (User_waiter 7) True, Try_wait 2 (User_waiter 7) False])"
  by (simp add: event_wait_many_def get_event_def try_wait_cases producers_run_def
      quiet_world_def event_init_def event_signaled_def)

lemma dismiss_wait_many_loop_log:
  "\<exists>ds s'. dismiss_wait_many_loop w events count s = (count + count_list ds True, s') \<and>
           length ds = length (non_null events) \<and>
           calls s' = calls s @ map2 Dismiss_wait (non_null events) ds"
proof (induction events arbitrary: count s)
  case Nil
  show ?case by simp
next
  case (Cons i rest)
  show ?case
  proof (cases i)
    case None
    with Cons show ?thesis by (simp add: get_event_def)
  next
    case (Some e)
    obtain r s1 where step: "event_dismiss_wait w e (producers_run s) = (r, s1)"
      by (cases "event_dismiss_wait w e (producers_run s)")
    have log1: "calls s1 = calls s @ [Dismiss_wait e r]"
      using step by (auto simp: dismiss_wait_cases split: if_splits)
    from Cons [of "count + (if r then 1 else 0)" s1]
    obtain ds s' where
      run: "dismiss_wait_many_loop w rest (count + (if r then 1 else 0)) s1 =
              (count + (if r then 1 else 0) + count_list ds True, s')"
      and len: "length ds = length (non_null rest)"
      and log: "calls s' = calls s1 @ map2 Dismiss_wait (non_null rest) ds"
      by blast
    have "dismiss_wait_many_loop w (i # rest) count s = (count + count_list (r # ds) True, s')"
      using Some step run by (simp add: get_event_def)
    moreover have "length (r # ds) = length (non_null (i # rest))"
      using Some len by simp
    moreover have "calls s' = calls s @ map2 Dismiss_wait (non_null (i # rest)) (r # ds)"
      using Some log log1 by simp
    ultimately show ?thesis by blast
  qed
qed

lemma latch_block_calls:
  "latch_block l target bs s = Inr s' \<Longrightarrow> calls s' = calls s"
  by (induction bs arbitrary: s) (auto split: if_splits)

lemma CountdownLatch_wait_calls:
  "CountdownLatch_wait l target s = Inr s' \<Longrightarrow> calls s' = calls s @ [Latch_wait l target]"
  by (auto simp: CountdownLatch_wait_def dest: latch_block_calls)

text \<open>
  C5. Every run of \<^verbatim>\<open>wait_any\<close> that returns has made these calls, in this order:
  \<^verbatim>\<open>latch.reset()\<close>; one \<^verbatim>\<open>try_wait(&latch)\<close> per non-null event; one
  \<^verbatim>\<open>latch.wait()\<close> with target 1 exactly when no \<^verbatim>\<open>try_wait\<close> returned false;
  one \<^verbatim>\<open>dismiss_wait\<close> per non-null event; and, when it is not zero, one
  \<^verbatim>\<open>latch.wait(pending)\<close> where \<open>pending\<close> is the number of \<^verbatim>\<open>try_wait\<close> calls
  that returned true, minus the number of \<^verbatim>\<open>dismiss_wait\<close> calls that returned
  true, minus one if the first \<^verbatim>\<open>latch.wait()\<close> was made.
\<close>

theorem wait_any_protocol:
  assumes run: "wait_any_adl l events s = Inr s'"
  shows "\<exists>rs ds.
           length rs = length (non_null events) \<and> length ds = length (non_null events) \<and>
           count_list ds True + (if count_list rs False = 0 then 1 else 0) \<le> count_list rs True \<and>
           calls s' =
             calls s @ [Latch_reset l]
             @ map2 (\<lambda>e r. Try_wait e (Latch l) r) (non_null events) rs
             @ (if count_list rs False = 0 then [Latch_wait l 1] else [])
             @ map2 Dismiss_wait (non_null events) ds
             @ (if count_list rs True - count_list ds True
                     - (if count_list rs False = 0 then 1 else 0) \<noteq> 0
                then [Latch_wait l (count_list rs True - count_list ds True
                                      - (if count_list rs False = 0 then 1 else 0))]
                else [])"
proof -
  let ?s0 = "CountdownLatch_reset l s"
  from wait_many_loop_log [of "Latch l" events 0 0 ?s0]
  obtain rs s1 where
    wm: "event_wait_many (Latch l) events ?s0 =
           Inr ((count_list rs False, count_list rs True), s1)"
    and len_rs: "length rs = length (non_null events)"
    and log1: "calls s1 = calls ?s0 @ map2 (\<lambda>e r. Try_wait e (Latch l) r) (non_null events) rs"
    by (auto simp: event_wait_many_def)
  let ?sg = "count_list rs False" and ?wt = "count_list rs True"
  obtain s2 where blk: "(if ?sg = 0 then CountdownLatch_wait l 1 s1 else Inr s1) = Inr s2"
    using run wm by (auto simp: wait_any_adl_def split: sum.splits if_splits)
  from dismiss_wait_many_loop_log [of "Latch l" events 0 s2]
  obtain ds s3 where
    dm: "event_dismiss_wait_many (Latch l) events s2 = (count_list ds True, s3)"
    and len_ds: "length ds = length (non_null events)"
    and log3: "calls s3 = calls s2 @ map2 Dismiss_wait (non_null events) ds"
    by (auto simp: event_dismiss_wait_many_def)
  let ?d = "count_list ds True"
  let ?one = "if ?sg = 0 then 1 else (0::nat)"
  have bound: "?d + ?one \<le> ?wt"
    using run wm blk dm by (auto simp: wait_any_adl_def Let_def split: if_splits)
  have fin: "(if ?wt - ?d - ?one \<noteq> 0 then CountdownLatch_wait l (?wt - ?d - ?one) s3 else Inr s3)
               = Inr s'"
  proof (cases "?sg = 0")
    case True
    then have "nat (int ?wt - int ?d - 1) = ?wt - ?d - 1" by simp
    with True run wm blk dm bound show ?thesis
      by (auto simp: wait_any_adl_def Let_def split: if_splits)
  next
    case False
    then have "nat (int ?wt - int ?d) = ?wt - ?d" by simp
    with False run wm blk dm bound show ?thesis
      by (auto simp: wait_any_adl_def Let_def split: if_splits)
  qed
  have log0: "calls ?s0 = calls s @ [Latch_reset l]"
    by (simp add: CountdownLatch_reset_def)
  have log2: "calls s2 = calls s1 @ (if ?sg = 0 then [Latch_wait l 1] else [])"
    using blk by (auto split: if_splits dest: CountdownLatch_wait_calls)
  have log4: "calls s' = calls s3 @
      (if ?wt - ?d - ?one \<noteq> 0 then [Latch_wait l (?wt - ?d - ?one)] else [])"
    using fin by (auto split: if_splits dest: CountdownLatch_wait_calls)
  have "calls s' =
      calls s @ [Latch_reset l]
      @ map2 (\<lambda>e r. Try_wait e (Latch l) r) (non_null events) rs
      @ (if ?sg = 0 then [Latch_wait l 1] else [])
      @ map2 Dismiss_wait (non_null events) ds
      @ (if ?wt - ?d - ?one \<noteq> 0 then [Latch_wait l (?wt - ?d - ?one)] else [])"
    unfolding log4 log3 log2 log1 log0 by simp
  with len_rs len_ds bound show ?thesis by blast
qed

theorem wait_any_protocol_witness:
  "wait_any_adl 9 [Some 1, None, Some 2] race_world =
     Inr (projr (wait_any_adl 9 [Some 1, None, Some 2] race_world)) \<and>
   (\<exists>rs ds.
      length rs = length (non_null [Some 1, None, Some 2]) \<and>
      length ds = length (non_null [Some 1, None, Some 2]) \<and>
      count_list ds True + (if count_list rs False = 0 then 1 else 0) \<le> count_list rs True \<and>
      calls (projr (wait_any_adl 9 [Some 1, None, Some 2] race_world)) =
        calls race_world @ [Latch_reset 9]
        @ map2 (\<lambda>e r. Try_wait e (Latch 9) r) (non_null [Some 1, None, Some 2]) rs
        @ (if count_list rs False = 0 then [Latch_wait 9 1] else [])
        @ map2 Dismiss_wait (non_null [Some 1, None, Some 2]) ds
        @ (if count_list rs True - count_list ds True
                - (if count_list rs False = 0 then 1 else 0) \<noteq> 0
           then [Latch_wait 9 (count_list rs True - count_list ds True
                                 - (if count_list rs False = 0 then 1 else 0))]
           else []))"
proof -
  have h: "wait_any_adl 9 [Some 1, None, Some 2] race_world =
     Inr (projr (wait_any_adl 9 [Some 1, None, Some 2] race_world))"
    by (simp add: wait_any_adl_def event_wait_many_def event_dismiss_wait_many_def
      CountdownLatch_reset_def CountdownLatch_wait_def get_event_def try_wait_cases
      dismiss_wait_cases producers_run_def run_batch_def event_signal_cases quiet_world_def
      CountdownLatch_signal_def race_world_def event_init_def event_signaled_def)
  show ?thesis
    by (rule conjI [OF h wait_any_protocol [OF h]])
qed

text \<open>
  The run on \<open>race_world\<close> blocks once, finds both events signaled and drains the
  second signal. With one of three events signaled beforehand, the latch is not
  waited on and the two other events are dismissed.
\<close>

lemma wait_any_race_example:
  "calls (projr (wait_any_adl 9 [Some 1, None, Some 2] race_world)) =
   [Latch_reset 9, Try_wait 1 (Latch 9) True, Try_wait 2 (Latch 9) True,
      Latch_wait 9 1, Dismiss_wait 1 False, Dismiss_wait 2 False,
      Latch_wait 9 1]"
  by (simp add: wait_any_adl_def event_wait_many_def event_dismiss_wait_many_def
      CountdownLatch_reset_def CountdownLatch_wait_def get_event_def try_wait_cases
      dismiss_wait_cases producers_run_def run_batch_def event_signal_cases quiet_world_def
      CountdownLatch_signal_def race_world_def event_init_def event_signaled_def)

lemma wait_any_presignaled_example:
  "calls (projr (wait_any_adl 9 [Some 1, Some 2, Some 3] (event_init 2 False quiet_world))) =
  [Latch_reset 9, Try_wait 1 (Latch 9) True, Try_wait 2 (Latch 9) False,
      Try_wait 3 (Latch 9) True, Dismiss_wait 1 True, Dismiss_wait 2 False,
      Dismiss_wait 3 True]"
  by (simp add: wait_any_adl_def event_wait_many_def event_dismiss_wait_many_def
      CountdownLatch_reset_def CountdownLatch_wait_def get_event_def try_wait_cases
      dismiss_wait_cases producers_run_def run_batch_def event_signal_cases quiet_world_def
      CountdownLatch_signal_def race_world_def event_init_def event_signaled_def)

section \<open>The multiplexer after its signal\<close>

lemma fold_set_value_listeners [simp]:
  "listeners (fold (promise_set_value v) ps m) = listeners m"
  by (induction ps arbitrary: m) (simp_all add: promise_set_value_def)

lemma fold_set_value_next [simp]:
  "next_promise (fold (promise_set_value v) ps m) = next_promise m"
  by (induction ps arbitrary: m) (simp_all add: promise_set_value_def)

text \<open>
  C4. A listener added after the multiplexer was signaled is not fulfilled.
  \<^verbatim>\<open>signal\<close> has left the deque empty; \<^verbatim>\<open>add_listener\<close> appends a
  new promise and returns its future, which is not ready; the promise stays in the
  deque, where only another \<^verbatim>\<open>signal\<close> would fulfil it.
\<close>

theorem add_listener_after_signal_unfulfilled:
  "\<not> isl (multiplexer_signal (Some v) m) \<and>
   listeners (projr (multiplexer_signal (Some v) m)) = [] \<and>
   \<not> future_ready (fst (add_listener (projr (multiplexer_signal (Some v) m))))
       (snd (add_listener (projr (multiplexer_signal (Some v) m)))) \<and>
   listeners (snd (add_listener (projr (multiplexer_signal (Some v) m)))) =
     [fst (add_listener (projr (multiplexer_signal (Some v) m)))]"
  by (simp add: multiplexer_signal_def add_listener_def promise_new_def promise_get_future_def
      future_ready_def Let_def)

text \<open>
  The same through the copy constructor of \<^verbatim>\<open>shared_future\<close>: the copy passes
  \<^verbatim>\<open>assert(listener.valid())\<close> and is not ready. A listener added before the
  signal is fulfilled by it.
\<close>

lemma copy_after_signal_never_ready:
  "\<not> isl (shared_future_copy \<lparr>state = True, listener = l\<rparr> (projr (multiplexer_signal (Some v) m))) \<and>
   \<not> shared_future_ready
       (fst (projr (shared_future_copy \<lparr>state = True, listener = l\<rparr>
                      (projr (multiplexer_signal (Some v) m)))))
       (snd (projr (shared_future_copy \<lparr>state = True, listener = l\<rparr>
                      (projr (multiplexer_signal (Some v) m)))))"
  by (simp add: multiplexer_signal_def add_listener_def promise_new_def promise_get_future_def
      future_ready_def Let_def shared_future_copy_def shared_future_ready_def)

lemma listener_before_signal_fulfilled:
  "future_ready (fst (add_listener m))
     (projr (multiplexer_signal (Some v) (snd (add_listener m))))"
  by (simp add: multiplexer_signal_def add_listener_def promise_new_def promise_get_future_def
      future_ready_def Let_def promise_set_value_def)

section \<open>Continuations\<close>

text \<open>
  C9. \<^verbatim>\<open>pilfer()\<close> returns the stored pair and leaves the null pair, so that
  afterwards \<^verbatim>\<open>terminated()\<close> is true, \<^verbatim>\<open>has_data()\<close> is false and the assertion
  of the destructor holds, on a pilfered continuation and on a moved-from one.
\<close>

theorem pilfer_leaves_terminated:
  "fst (pilfer c) = pair c \<and>
   pair (snd (pilfer c)) = \<lparr>sp = 0, parm = 0\<rparr> \<and>
   terminated (snd (pilfer c)) \<and>
   \<not> has_data (snd (pilfer c)) \<and>
   continuation_destroy (snd (pilfer c)) = Inr () \<and>
   pair (fst (continuation_move c)) = pair c \<and>
   continuation_destroy (snd (continuation_move c)) = Inr ()"
  by (simp add: pilfer_def terminated_def has_data_def continuation_destroy_def
      continuation_move_def)

text \<open>
  C8. \<^verbatim>\<open>create_context\<close> with its default arguments asks \<^verbatim>\<open>posix_memalign\<close> for
  one block of 1024*1024 bytes aligned to 16. When that call returns \<^verbatim>\<open>ENOMEM\<close>,
  \<^verbatim>\<open>create_context\<close> ends with \<^verbatim>\<open>std::bad_alloc\<close>; when it returns neither
  \<^verbatim>\<open>ENOMEM\<close> nor \<^verbatim>\<open>EINVAL\<close>, \<^verbatim>\<open>create_context\<close> returns the continuation started
  on that block, having made exactly that one allocation.
\<close>

theorem create_context_allocation:
  "default_stack_size = 1024 * 1024 \<and> alignment = 16 \<and>
   (fst (posix_memalign alignment default_stack_size) = ENOMEM \<longrightarrow>
      create_context_default posix_memalign stack_bottom run f st = Inl Bad_alloc) \<and>
   (fst (posix_memalign alignment default_stack_size) \<noteq> ENOMEM \<and>
    fst (posix_memalign alignment default_stack_size) \<noteq> EINVAL \<longrightarrow>
      create_context_default posix_memalign stack_bottom run f st =
        Inr (\<lparr>pair = run (stack_bottom (snd (posix_memalign alignment default_stack_size))
                            default_stack_size)
                        f (snd (posix_memalign alignment default_stack_size))\<rparr>,
             st\<lparr>memalign_calls := memalign_calls st @ [(16, 1048576)]\<rparr>))"
  by (auto simp: create_context_default_def create_context_def default_stack_allocator_allocate_def
      default_stack_size_def alignment_def EINVAL_def ENOMEM_def Let_def split: prod.splits)

theorem create_context_allocation_witness:
  "fst (memalign_fails alignment default_stack_size) = ENOMEM \<and>
   create_context_default memalign_fails (\<lambda>p n. p + n) (\<lambda>cs f p. \<lparr>sp = cs, parm = 0\<rparr>) () 
     \<lparr>memalign_calls = []\<rparr> = Inl Bad_alloc \<and>
   fst (memalign_succeeds alignment default_stack_size) \<noteq> ENOMEM \<and>
   fst (memalign_succeeds alignment default_stack_size) \<noteq> EINVAL \<and>
   create_context_default memalign_succeeds (\<lambda>p n. p + n) (\<lambda>cs f p. \<lparr>sp = cs, parm = 0\<rparr>) ()
     \<lparr>memalign_calls = []\<rparr> =
     Inr (\<lparr>pair = \<lparr>sp = 4096 + 1048576, parm = 0\<rparr>\<rparr>, \<lparr>memalign_calls = [(16, 1048576)]\<rparr>)"
  using create_context_allocation
      [of memalign_fails "\<lambda>p n. p + n" "\<lambda>cs f p. \<lparr>sp = cs, parm = 0\<rparr>" "()" "\<lparr>memalign_calls = []\<rparr>"]
    create_context_allocation
      [of memalign_succeeds "\<lambda>p n. p + n" "\<lambda>cs f p. \<lparr>sp = cs, parm = 0\<rparr>" "()" "\<lparr>memalign_calls = []\<rparr>"]
  by (simp add: memalign_fails_def memalign_succeeds_def ENOMEM_def EINVAL_def
      default_stack_size_def)

end
